theory Spec2Isabelle
  imports Main "HOL-Library.Sublist"
begin

section \<open>PiCanvas: content renderer and tab controller\<close>

text \<open>
  A shallow embedding of the \<^verbatim>\<open>ContentRenderer\<close> class and of the tab controller of
  \<^verbatim>\<open>AddTabs.js\<close>. JavaScript strings are modelled as HOL strings: one \<^typ>\<open>char\<close>
  stands for one UTF-16 code unit below 256, which is where every character class used
  by the code (digits, letters, dash, underscore, white space) lives. Integral JavaScript
  numbers are modelled as \<^typ>\<open>int\<close>.
\<close>

subsection \<open>String primitives of the platform\<close>

definition charCode :: "char \<Rightarrow> nat" where
  "charCode c = of_char c"

definition is_digit :: "char \<Rightarrow> bool" where
  "is_digit c = (48 \<le> charCode c \<and> charCode c \<le> 57)"

definition is_upper :: "char \<Rightarrow> bool" where
  "is_upper c = (65 \<le> charCode c \<and> charCode c \<le> 90)"

definition is_lower :: "char \<Rightarrow> bool" where
  "is_lower c = (97 \<le> charCode c \<and> charCode c \<le> 122)"

text \<open>White space and line terminators of \<^verbatim>\<open>String.prototype.trim\<close> below code unit 256:
  TAB, LF, VT, FF, CR, SPACE and NBSP.\<close>

definition is_space :: "char \<Rightarrow> bool" where
  "is_space c = (c \<in> set [CHR 0x09, CHR 0x0A, CHR 0x0B, CHR 0x0C, CHR 0x0D, CHR 0x20, CHR 0xA0])"

definition trimStart :: "string \<Rightarrow> string" where
  "trimStart s = dropWhile is_space s"

definition trimEnd :: "string \<Rightarrow> string" where
  "trimEnd s = rev (dropWhile is_space (rev s))"

definition trim :: "string \<Rightarrow> string" where
  "trim s = trimEnd (trimStart s)"



definition startsWith :: "string \<Rightarrow> string \<Rightarrow> bool" where
  "startsWith s p = prefix p s"


text \<open>\<^verbatim>\<open>s.substring(0, n)\<close> for an integral \<^verbatim>\<open>n\<close>: a negative end is clamped to 0, an
  end beyond the length to the length.\<close>

definition substring0 :: "string \<Rightarrow> int \<Rightarrow> string" where
  "substring0 s n = take (nat n) s"

text \<open>Number to string conversion of integral numbers, as in template literals and
  \<^verbatim>\<open>toString()\<close>.\<close>

definition digit_char :: "nat \<Rightarrow> char" where
  "digit_char d = ''0123456789'' ! d"

fun nat_toString :: "nat \<Rightarrow> string" where
  "nat_toString n =
     (if n < 10 then [digit_char n] else nat_toString (n div 10) @ [digit_char (n mod 10)])"

declare nat_toString.simps [simp del]

definition int_toString :: "int \<Rightarrow> string" where
  "int_toString i = (if i < 0 then CHR ''-'' # nat_toString (nat (- i)) else nat_toString (nat i))"

definition padStart :: "string \<Rightarrow> nat \<Rightarrow> char \<Rightarrow> string" where
  "padStart s n c = replicate (n - length s) c @ s"

subsection \<open>Feed dates: \<^verbatim>\<open>ContentRenderer.formatRssDate\<close>\<close>

text \<open>
  The argument of \<^verbatim>\<open>formatRssDate\<close>: a value that is no \<^verbatim>\<open>Date\<close> object (or is
  falsy), a \<^verbatim>\<open>Date\<close> whose time value is \<^verbatim>\<open>NaN\<close>, or a \<^verbatim>\<open>Date\<close> with its time
  value in milliseconds.
\<close>

datatype date_arg = NotADate | InvalidDate | ValidDate int

text \<open>The calendar fields of a time value in the local time zone of the host
  (\<^verbatim>\<open>getDate\<close>, \<^verbatim>\<open>getMonth\<close>, \<^verbatim>\<open>getFullYear\<close>); the host supplies them.\<close>

record local_fields =
  getDate :: nat
  getMonth :: nat
  getFullYear :: int

definition absoluteRssDate :: "local_fields \<Rightarrow> string \<Rightarrow> string" where
  "absoluteRssDate f format =
     (let day = padStart (nat_toString (getDate f)) 2 CHR ''0'';
          month = padStart (nat_toString (getMonth f + 1)) 2 CHR ''0'';
          year = int_toString (getFullYear f)
      in if format = ''DD/MM/YYYY'' then day @ ''/'' @ month @ ''/'' @ year
         else month @ ''/'' @ day @ ''/'' @ year)"

text \<open>The block guarded by \<^verbatim>\<open>format === 'relative'\<close>: \<open>Some\<close> is a \<^verbatim>\<open>return\<close> inside
  the block, \<open>None\<close> is control leaving the block. \<open>now\<close> is the value of
  \<^verbatim>\<open>new Date().getTime()\<close> at the call.\<close>

definition relativeRssDate :: "int \<Rightarrow> int \<Rightarrow> string option" where
  "relativeRssDate now t =
     (let diffMs = now - t;
          diffMins = diffMs div 60000;
          diffHours = diffMins div 60;
          diffDays = diffHours div 24
      in if diffMins < 1 then Some ''Just now''
         else if diffMins < 60 then Some (int_toString diffMins @ ''m ago'')
         else if diffHours < 24 then Some (int_toString diffHours @ ''h ago'')
         else if diffDays = 1 then Some ''Yesterday''
         else if diffDays < 7 then Some (int_toString diffDays @ ''d ago'')
         else if diffDays < 30 then Some (int_toString (diffDays div 7) @ ''w ago'')
         else None)"

definition formatRssDate :: "int \<Rightarrow> (int \<Rightarrow> local_fields) \<Rightarrow> date_arg \<Rightarrow> string \<Rightarrow> string" where
  "formatRssDate now tz date format =
     (case date of
        NotADate \<Rightarrow> ''''
      | InvalidDate \<Rightarrow> ''''
      | ValidDate t \<Rightarrow>
          (case (if format = ''relative'' then relativeRssDate now t else None) of
             Some s \<Rightarrow> s
           | None \<Rightarrow> absoluteRssDate (tz t) format))"

subsection \<open>Security helpers of \<^verbatim>\<open>ContentRenderer\<close>\<close>

text \<open>\<^verbatim>\<open>s.replace(/c/g, r)\<close> for a single character \<open>c\<close>.\<close>

definition replace_char :: "char \<Rightarrow> string \<Rightarrow> string \<Rightarrow> string" where
  "replace_char c r s = concat (map (\<lambda>x. if x = c then r else [x]) s)"

definition encodeHtml :: "string \<Rightarrow> string" where
  \<open>encodeHtml str =
     (if str = [] then []
      else replace_char CHR 0x27 ''&#39;''
             (replace_char CHR 0x22 ''&quot;''
               (replace_char CHR ''>'' ''&gt;''
                 (replace_char CHR ''<'' ''&lt;''
                   (replace_char CHR ''&'' ''&amp;'' str)))))\<close>

text \<open>The five entities that \<^verbatim>\<open>encodeHtml\<close> writes. A text has its entities complete
  when every ampersand in it begins one of them.\<close>

definition html_entities :: "string list" where
  \<open>html_entities = [''&amp;'', ''&lt;'', ''&gt;'', ''&quot;'', ''&#39;'']\<close>

fun entities_complete :: "string \<Rightarrow> bool" where
  "entities_complete [] = True"
| "entities_complete (c # s) =
     ((c \<noteq> CHR ''&'' \<or> list_ex (\<lambda>e. prefix e (c # s)) html_entities) \<and> entities_complete s)"

text \<open>The text that the five replacements of \<^verbatim>\<open>encodeHtml\<close> leave for one character.\<close>

definition escape_char :: "char \<Rightarrow> string" where
  \<open>escape_char c =
     (if c = CHR ''&'' then ''&amp;''
      else if c = CHR ''<'' then ''&lt;''
      else if c = CHR ''>'' then ''&gt;''
      else if c = CHR 0x22 then ''&quot;''
      else if c = CHR 0x27 then ''&#39;''
      else [c])\<close>

text \<open>The characters of a CSS length: digits, letters, the dot and the percent sign.\<close>

definition is_css_char :: "char \<Rightarrow> bool" where
  "is_css_char c = (is_digit c \<or> is_lower c \<or> is_upper c \<or> c = CHR ''.'' \<or> c = CHR ''%'')"

text \<open>The character class \<^verbatim>\<open>[\d.]\<close>.\<close>

definition is_num_char :: "char \<Rightarrow> bool" where
  "is_num_char c = (is_digit c \<or> c = CHR ''.'')"

text \<open>Case folding of the \<^verbatim>\<open>i\<close> flag (without the \<^verbatim>\<open>u\<close> flag a code unit outside
  ASCII never folds onto an ASCII letter): only the ASCII letters fold.\<close>

definition fold_case :: "char \<Rightarrow> char" where
  "fold_case c = (if is_upper c then char_of (charCode c + 32) else c)"

definition css_units :: "string list" where
  "css_units = [''px'', ''em'', ''rem'', ''%'', ''vh'', ''vw'']"

text \<open>The test of \<^verbatim>\<open>/^[\d.]+(px|em|rem|%|vh|vw)?$/i\<close>. No unit begins with a digit or a
  dot, so the numeric part of a match is the longest prefix of such characters.\<close>

definition safePattern :: "string \<Rightarrow> bool" where
  "safePattern s =
     (let num = takeWhile is_num_char s; unit = dropWhile is_num_char s
      in num \<noteq> [] \<and> (unit = [] \<or> map fold_case unit \<in> set css_units))"

text \<open>The test of \<^verbatim>\<open>/^\d+$/\<close>.\<close>

definition digits_only :: "string \<Rightarrow> bool" where
  "digits_only s = (s \<noteq> [] \<and> list_all is_digit s)"

definition sanitizeCssValue :: "string \<Rightarrow> string" where
  "sanitizeCssValue v =
     (if v = [] then []
      else let trimmed = trim v
           in if safePattern trimmed then trimmed
              else if digits_only trimmed then trimmed @ ''px''
              else ''400px'')"

text \<open>The character class \<^verbatim>\<open>[a-zA-Z0-9_-]\<close>.\<close>

definition is_id_char :: "char \<Rightarrow> bool" where
  "is_id_char c = (is_lower c \<or> is_upper c \<or> is_digit c \<or> c = CHR ''_'' \<or> c = CHR ''-'')"

text \<open>\<^verbatim>\<open>replace(/[^a-zA-Z0-9_-]/g, '-')\<close>.\<close>

definition replace_unsafe :: "string \<Rightarrow> string" where
  "replace_unsafe s = map (\<lambda>c. if is_id_char c then c else CHR ''-'') s"

text \<open>\<^verbatim>\<open>replace(/-+/g, '-')\<close>: every maximal run of dashes becomes one dash.\<close>

fun collapse_dashes :: "string \<Rightarrow> string" where
  "collapse_dashes (a # b # s) =
     (if a = CHR ''-'' \<and> b = CHR ''-'' then collapse_dashes (b # s)
      else a # collapse_dashes (b # s))"
| "collapse_dashes s = s"

text \<open>\<^verbatim>\<open>replace(/^-+|-+$/g, '')\<close>: the dashes at the start and at the end are removed.\<close>

definition strip_dashes :: "string \<Rightarrow> string" where
  "strip_dashes s =
     rev (dropWhile (\<lambda>c. c = CHR ''-'') (rev (dropWhile (\<lambda>c. c = CHR ''-'') s)))"

text \<open>\<open>now\<close> is the value of \<^verbatim>\<open>Date.now()\<close>.\<close>

definition makeCssSafeId :: "int \<Rightarrow> string \<Rightarrow> string" where
  "makeCssSafeId now str =
     (if str = [] then ''mermaid-'' @ int_toString now
      else let safeId = replace_unsafe str;
               safeId = (if safeId \<noteq> [] \<and> is_digit (hd safeId) then ''m-'' @ safeId else safeId);
               safeId = collapse_dashes safeId;
               safeId = strip_dashes safeId
           in if safeId = [] then ''mermaid-'' @ int_toString now else safeId)"

text \<open>The pattern \<^verbatim>\<open>^[A-Za-z_-][A-Za-z0-9_-]*$\<close> of the specification.\<close>

definition css_identifier :: "string \<Rightarrow> bool" where
  "css_identifier s = (s \<noteq> [] \<and> \<not> is_digit (hd s) \<and> list_all is_id_char s)"

subsection \<open>Feed text: \<^verbatim>\<open>ContentRenderer.truncateRssText\<close>\<close>

text \<open>The limit is an integral number; \<^verbatim>\<open>text.length\<close> counts code units.\<close>

definition truncateRssText :: "string \<Rightarrow> int \<Rightarrow> string" where
  "truncateRssText text limit =
     (if text = [] \<or> int (length text) \<le> limit then text
      else trim (substring0 text limit) @ ''...'')"

subsection \<open>Embeds: \<^verbatim>\<open>ContentRenderer.sanitizeEmbedUrl\<close> and \<^verbatim>\<open>renderEmbed\<close>\<close>

record render_result =
  html :: string
  requiresPostRender :: "bool option"
  postRenderType :: "string option"

definition result_html :: "string \<Rightarrow> render_result" where
  "result_html h = \<lparr>html = h, requiresPostRender = None, postRenderType = None\<rparr>"







record embed_config =
  url :: string
  height :: "string option"
  additionalDomains :: "string list option"
  defer_flag :: "bool option"




text \<open>The height that \<^verbatim>\<open>renderEmbed\<close> writes into the style of the container: the
  destructuring default \<^verbatim>\<open>'400px'\<close> stands in for an absent height only.\<close>

definition embed_height :: "embed_config \<Rightarrow> string" where
  "embed_height config = sanitizeCssValue (case height config of None \<Rightarrow> ''400px'' | Some h \<Rightarrow> h)"





subsection \<open>Feed items: \<^verbatim>\<open>ContentRenderer.renderRssList\<close>\<close>

record rss_item =
  title :: string
  link :: string
  description :: string
  publishedDate :: date_arg
  author :: string
  thumbnail :: "string option"

record rss_config =
  layout :: string
  showDate :: bool
  showDescription :: bool
  showImage :: bool
  showAuthor :: bool
  descriptionLimit :: int
  dateFormat :: string
  linkTarget :: string

text \<open>The separator between date and author is a bullet, a character outside the range
  of \<^typ>\<open>char\<close>; it is kept as the three bytes of its UTF-8 form.\<close>

definition meta_bullet :: string where
  "meta_bullet = '' '' @ [CHR 0xE2, CHR 0x80, CHR 0xA2] @ '' ''"

text \<open>The template literal returned for one item of the list layout.\<close>

definition rss_list_item_markup ::
  "string \<Rightarrow> string \<Rightarrow> string \<Rightarrow> string \<Rightarrow> string \<Rightarrow> string \<Rightarrow> string" where
  \<open>rss_list_item_markup thumbnail_html href target title_html meta description_html =
     ''\<newline>'' @
     ''        <article class="picanvas-rss-item">\<newline>'' @
     ''          '' @
     thumbnail_html @
     ''\<newline>'' @
     ''          <div class="picanvas-rss-content">\<newline>'' @
     ''            <a href="'' @
     href @
     ''" target="'' @
     target @
     ''" rel="noopener noreferrer" class="picanvas-rss-title">\<newline>'' @
     ''              '' @
     title_html @
     ''\<newline>'' @
     ''            </a>\<newline>'' @
     ''            '' @
     meta @
     ''\<newline>'' @
     ''            '' @
     description_html @
     ''\<newline>'' @
     ''          </div>\<newline>'' @
     ''        </article>\<newline>'' @
     ''      ''\<close>

text \<open>The callback of \<^verbatim>\<open>items.map\<close> in \<^verbatim>\<open>renderRssList\<close>.\<close>

definition renderRssListItem :: "int \<Rightarrow> (int \<Rightarrow> local_fields) \<Rightarrow> rss_config \<Rightarrow> rss_item \<Rightarrow> string" where
  \<open>renderRssListItem now tz config item =
     (let thumbnail_html =
            (case thumbnail item of
               Some th \<Rightarrow>
                 if showImage config \<and> th \<noteq> []
                 then ''<div class="picanvas-rss-thumbnail"><img src="'' @ encodeHtml th @
                      ''" alt="" loading="lazy" /></div>''
                 else []
             | None \<Rightarrow> []);
          date =
            (if showDate config
             then ''<span class="picanvas-rss-date">'' @
                  formatRssDate now tz (publishedDate item) (dateFormat config) @ ''</span>''
             else []);
          author_html =
            (if showAuthor config \<and> author item \<noteq> []
             then ''<span class="picanvas-rss-author">'' @ encodeHtml (author item) @ ''</span>''
             else []);
          meta =
            (if date \<noteq> [] \<or> author_html \<noteq> []
             then ''<div class="picanvas-rss-meta">'' @ date @
                  (if date \<noteq> [] \<and> author_html \<noteq> [] then meta_bullet else []) @
                  author_html @ ''</div>''
             else []);
          description_html =
            (if showDescription config \<and> description item \<noteq> []
             then ''<div class="picanvas-rss-description">'' @
                  encodeHtml (truncateRssText (description item) (descriptionLimit config)) @
                  ''</div>''
             else [])
      in rss_list_item_markup thumbnail_html (encodeHtml (link item)) (linkTarget config)
           (encodeHtml (title item)) meta description_html)\<close>

definition renderRssList :: "int \<Rightarrow> (int \<Rightarrow> local_fields) \<Rightarrow> rss_item list \<Rightarrow> rss_config \<Rightarrow> string" where
  "renderRssList now tz items config = concat (map (renderRssListItem now tz config) items)"

subsection \<open>Markdown and HTML: \<^verbatim>\<open>renderMarkdown\<close> and \<^verbatim>\<open>renderHtml\<close>\<close>

text \<open>A payload as JavaScript hands it over: the declared type is \<^verbatim>\<open>string\<close>, the guard
  \<^verbatim>\<open>!content || typeof content !== 'string'\<close> is written for every value.\<close>

datatype js_value = JString string | JNumber int | JBoolean bool | JNull | JUndefined | JObject

text \<open>A thrown value.\<close>

datatype exn = Thrown string

text \<open>The options passed to \<^verbatim>\<open>DOMPurify.sanitize\<close> (all calls use the \<^verbatim>\<open>html\<close> profile).\<close>

record purify_config =
  ADD_TAGS :: "string list"
  ADD_ATTR :: "string list"
  FORBID_TAGS :: "string list"
  FORBID_ATTR :: "string list"

definition markdown_purify_config :: purify_config where
  "markdown_purify_config =
     \<lparr>ADD_TAGS = [],
      ADD_ATTR = [''target'', ''rel''],
      FORBID_TAGS = [''style'', ''script''],
      FORBID_ATTR = [''onerror'', ''onload'', ''onclick'', ''onmouseover'']\<rparr>"

definition html_purify_config :: purify_config where
  "html_purify_config =
     \<lparr>ADD_TAGS = [''iframe''],
      ADD_ATTR = [''target'', ''rel'', ''allow'', ''allowfullscreen'', ''frameborder'',
                  ''scrolling'', ''loading'', ''referrerpolicy'', ''sandbox''],
      FORBID_TAGS = [''script''],
      FORBID_ATTR = [''onerror'', ''onload'', ''onclick'', ''onmouseover'', ''onmouseout'',
                     ''onfocus'', ''onblur'']\<rparr>"

text \<open>
  \<^verbatim>\<open>marked.parse\<close> and \<^verbatim>\<open>DOMPurify.sanitize\<close> are libraries outside the repository:
  they are parameters, and each call either throws (\<open>Inl\<close>) or returns a string. A
  render function returns \<open>Inr\<close> of its result, or \<open>Inl\<close> of an exception that leaves it.
\<close>

definition renderMarkdown ::
  "(string \<Rightarrow> exn + string) \<Rightarrow> (purify_config \<Rightarrow> string \<Rightarrow> exn + string) \<Rightarrow> js_value \<Rightarrow> exn + render_result" where
  \<open>renderMarkdown marked_parse purify content =
     (case content of
        JString s \<Rightarrow>
          if s = [] then Inr (result_html [])
          else (case (case marked_parse s of
                        Inl e \<Rightarrow> Inl e
                      | Inr rawHtml \<Rightarrow>
                          (case purify markdown_purify_config rawHtml of
                             Inl e \<Rightarrow> Inl e
                           | Inr sanitizedHtml \<Rightarrow> Inr (result_html sanitizedHtml))) of
                  Inr r \<Rightarrow> Inr r
                | Inl error \<Rightarrow>
                    Inr (result_html
                      ''<p class="picanvas-render-error">Error rendering Markdown content</p>''))
      | _ \<Rightarrow> Inr (result_html []))\<close>

definition renderHtml ::
  "(purify_config \<Rightarrow> string \<Rightarrow> exn + string) \<Rightarrow> js_value \<Rightarrow> exn + render_result" where
  \<open>renderHtml purify content =
     (case content of
        JString s \<Rightarrow>
          if s = [] then Inr (result_html [])
          else (case (case purify html_purify_config s of
                        Inl e \<Rightarrow> Inl e
                      | Inr sanitizedHtml \<Rightarrow> Inr (result_html sanitizedHtml)) of
                  Inr r \<Rightarrow> Inr r
                | Inl error \<Rightarrow>
                    Inr (result_html
                      ''<p class="picanvas-render-error">Error rendering HTML content</p>''))
      | _ \<Rightarrow> Inr (result_html []))\<close>

subsection \<open>Tab controller: \<^verbatim>\<open>$add.Tabs\<close> of \<^verbatim>\<open>AddTabs.js\<close>\<close>

text \<open>
  The part of the DOM that the controller reads and writes. An attribute is \<open>None\<close> when
  absent. A tab carries the class \<^verbatim>\<open>addui-Tabs-active\<close>, \<^verbatim>\<open>aria-selected\<close>, \<^verbatim>\<open>tabindex\<close>,
  \<^verbatim>\<open>data-placeholder\<close> and \<^verbatim>\<open>aria-disabled\<close>; a panel carries the class \<^verbatim>\<open>active\<close> of the
  source markup, the class \<^verbatim>\<open>addui-Tabs-active\<close>, \<^verbatim>\<open>aria-hidden\<close>, \<^verbatim>\<open>tabindex\<close>,
  \<^verbatim>\<open>data-lazy\<close>, \<^verbatim>\<open>data-lazy-loaded\<close>, and its frames, each with \<^verbatim>\<open>src\<close> and \<^verbatim>\<open>data-src\<close>.
\<close>

record tab_el =
  tab_active :: bool
  tab_aria_selected :: "string option"
  tab_tabindex :: "string option"
  tab_placeholder :: "string option"
  tab_aria_disabled :: "string option"

record frame_el =
  frame_src :: "string option"
  frame_data_src :: "string option"

record panel_el =
  panel_src_active :: bool
  panel_active :: bool
  panel_aria_hidden :: "string option"
  panel_tabindex :: "string option"
  panel_lazy :: "string option"
  panel_lazy_loaded :: "string option"
  panel_frames :: "frame_el list"

text \<open>The custom events \<^verbatim>\<open>picanvas:lazy-load\<close> and \<^verbatim>\<open>picanvas:tab-change\<close>, each with its
  \<^verbatim>\<open>tabIndex\<close>.\<close>

datatype tab_event = LazyLoad nat | TabChange nat

text \<open>
  The state of one tab widget: the tabs \<^verbatim>\<open>c\<close>, the panels \<^verbatim>\<open>r\<close>, the active index \<^verbatim>\<open>u\<close>,
  the custom events triggered so far (oldest first), the tab that was given the keyboard
  focus last, and the panels for which the corrective pass 50 ms after an activation has
  been scheduled.
\<close>

record controller =
  tabs :: "tab_el list"
  panels :: "panel_el list"
  u :: nat
  events :: "tab_event list"
  focused :: "nat option"
  scheduled_fixes :: "nat list"

text \<open>A jQuery call on \<^verbatim>\<open>.eq(i)\<close>: outside the range the selection is empty and the call
  does nothing.\<close>

definition at_eq :: "nat \<Rightarrow> ('a \<Rightarrow> 'a) \<Rightarrow> 'a list \<Rightarrow> 'a list" where
  "at_eq i f xs = (if i < length xs then xs[i := f (xs ! i)] else xs)"

text \<open>\<^verbatim>\<open>.eq(i).attr(name) === 'true'\<close>: false on the empty selection.\<close>

definition attr_true :: "('a \<Rightarrow> string option) \<Rightarrow> 'a list \<Rightarrow> nat \<Rightarrow> bool" where
  "attr_true attr xs i = (i < length xs \<and> attr (xs ! i) = Some ''true'')"

text \<open>The index chosen by the loop over the panels at initialisation: the last panel
  with the class \<^verbatim>\<open>active\<close>, and 0 when there is none.\<close>

fun initial_index :: "panel_el list \<Rightarrow> nat \<Rightarrow> nat \<Rightarrow> nat" where
  "initial_index [] d acc = acc"
| "initial_index (p # ps) d acc = initial_index ps (Suc d) (if panel_src_active p then d else acc)"

definition promote_frame :: "frame_el \<Rightarrow> frame_el" where
  "promote_frame f =
     (case frame_data_src f of
        None \<Rightarrow> f
      | Some d \<Rightarrow> f\<lparr>frame_src := Some d, frame_data_src := None\<rparr>)"

text \<open>Initialisation of a widget from its markup (the classes and the ARIA attributes;
  the corrective passes on banners are modelled apart). The lazy-load event of the first
  panel is triggered from a timer of 0 ms.\<close>

definition addTabs :: "tab_el list \<Rightarrow> panel_el list \<Rightarrow> controller" where
  "addTabs c r =
     (let u0 = initial_index r 0 0;
          r1 = map (\<lambda>p. p\<lparr>panel_src_active := False\<rparr>) r;
          r2 = at_eq u0 (\<lambda>p. p\<lparr>panel_active := True\<rparr>) (map (\<lambda>p. p\<lparr>panel_active := False\<rparr>) r1);
          c2 = at_eq u0 (\<lambda>t. t\<lparr>tab_active := True\<rparr>) (map (\<lambda>t. t\<lparr>tab_active := False\<rparr>) c);
          c3 = map (\<lambda>(index, t).
                 (let t1 = t\<lparr>tab_aria_selected := Some (if index = u0 then ''true'' else ''false''),
                              tab_tabindex := Some (if index = u0 then ''0'' else ''-1'')\<rparr>
                  in if tab_placeholder t1 = Some ''true''
                     then t1\<lparr>tab_aria_disabled := Some ''true''\<rparr> else t1))
               (enumerate 0 c2);
          r3 = map (\<lambda>(index, p).
                 (let p1 = p\<lparr>panel_tabindex := Some ''0''\<rparr>
                  in if index \<noteq> u0 then p1\<lparr>panel_aria_hidden := Some ''true''\<rparr> else p1))
               (enumerate 0 r2);
          firstLazy = attr_true panel_lazy r3 u0;
          r4 = (if firstLazy then at_eq u0 (\<lambda>p. p\<lparr>panel_lazy_loaded := Some ''true''\<rparr>) r3 else r3)
      in \<lparr>tabs = c3, panels = r4, u = u0,
          events = (if firstLazy then [LazyLoad u0] else []),
          focused = None, scheduled_fixes = []\<rparr>)"

text \<open>\<^verbatim>\<open>activateTab(newIndex, focusTab)\<close>: the returned flag and the state after the call.\<close>

definition activateTab :: "controller \<Rightarrow> nat \<Rightarrow> bool \<Rightarrow> bool \<times> controller" where
  "activateTab st newIndex focusTab =
     (if attr_true tab_placeholder (tabs st) newIndex then (False, st)
      else
        let r1 = map (\<lambda>p. p\<lparr>panel_active := False, panel_aria_hidden := Some ''true''\<rparr>) (panels st);
            r2 = at_eq newIndex (\<lambda>p. p\<lparr>panel_active := True, panel_aria_hidden := None\<rparr>) r1;
            c1 = map (\<lambda>t. t\<lparr>tab_active := False, tab_aria_selected := Some ''false'',
                               tab_tabindex := Some ''-1''\<rparr>) (tabs st);
            c2 = at_eq newIndex (\<lambda>t. t\<lparr>tab_active := True, tab_aria_selected := Some ''true'',
                                         tab_tabindex := Some ''0''\<rparr>) c1;
            foc = (if focusTab \<and> newIndex < length c2 then Some newIndex else focused st);
            lazy = (attr_true panel_lazy r2 newIndex \<and> \<not> attr_true panel_lazy_loaded r2 newIndex);
            r3 = (if lazy
                  then at_eq newIndex
                         (\<lambda>p. p\<lparr>panel_lazy_loaded := Some ''true'',
                                 panel_frames := map promote_frame (panel_frames p)\<rparr>) r2
                  else r2);
            ev = events st @ (if lazy then [LazyLoad newIndex] else []) @ [TabChange newIndex]
        in (True, \<lparr>tabs = c2, panels = r3, u = newIndex, events = ev, focused = foc,
                   scheduled_fixes = scheduled_fixes st @ [newIndex]\<rparr>))"

text \<open>The click handler (also bound to \<^verbatim>\<open>mouseenter\<close> when the widget changes on hover):
  \<open>newIndex\<close> is the position of the clicked tab among the tabs.\<close>

definition tab_click :: "controller \<Rightarrow> nat \<Rightarrow> controller" where
  "tab_click st newIndex =
     (if newIndex < length (tabs st) \<and> newIndex \<noteq> u st then snd (activateTab st newIndex False) else st)"

datatype key = NextKey | PrevKey | Home | End | Enter | Space | OtherKey

text \<open>The loop that skips placeholder tabs: at most \<open>attempts\<close> more steps, forwards or
  backwards with wrap-around.\<close>

fun skip_placeholders :: "tab_el list \<Rightarrow> bool \<Rightarrow> nat \<Rightarrow> nat \<Rightarrow> nat" where
  "skip_placeholders ts forwards 0 newIndex = newIndex"
| "skip_placeholders ts forwards (Suc attempts) newIndex =
     (if attr_true tab_placeholder ts newIndex
      then skip_placeholders ts forwards attempts
             (if forwards then (newIndex + 1) mod length ts
              else (newIndex + length ts - 1) mod length ts)
      else newIndex)"

text \<open>The \<^verbatim>\<open>keydown\<close> handler of a tab at position \<open>currentIndex\<close>; \<open>NextKey\<close> and \<open>PrevKey\<close>
  are the two arrow keys of the orientation of the widget.\<close>

definition tab_keydown :: "controller \<Rightarrow> key \<Rightarrow> nat \<Rightarrow> controller" where
  "tab_keydown st k currentIndex =
     (let tabCount = length (tabs st)
      in if k = Enter \<or> k = Space then snd (activateTab st currentIndex False)
         else if k = OtherKey then st
         else
           let newIndex =
                 (case k of
                    NextKey \<Rightarrow> (currentIndex + 1) mod tabCount
                  | PrevKey \<Rightarrow> (currentIndex + tabCount - 1) mod tabCount
                  | Home \<Rightarrow> 0
                  | _ \<Rightarrow> tabCount - 1);
               newIndex = skip_placeholders (tabs st) (k = NextKey \<or> k = End) tabCount newIndex
           in if newIndex \<noteq> currentIndex then snd (activateTab st newIndex True) else st)"

text \<open>The function stored under \<^verbatim>\<open>picanvas-activate-tab\<close> for deep linking.\<close>

definition picanvas_activate_tab :: "controller \<Rightarrow> int \<Rightarrow> controller" where
  "picanvas_activate_tab st index =
     (if 0 \<le> index \<and> index < int (length (tabs st))
      then snd (activateTab st (nat index) False) else st)"

text \<open>The states a widget passes through: initialisation from markup, then clicks, key
  presses on one of its tabs, and activations by index.\<close>

inductive reachable :: "tab_el list \<Rightarrow> panel_el list \<Rightarrow> controller \<Rightarrow> bool"
  for c :: "tab_el list" and r :: "panel_el list" where
  init: "reachable c r (addTabs c r)"
| click: "reachable c r st \<Longrightarrow> reachable c r (tab_click st i)"
| keydown: "reachable c r st \<Longrightarrow> i < length (tabs st) \<Longrightarrow> reachable c r (tab_keydown st k i)"
| deep_link: "reachable c r st \<Longrightarrow> reachable c r (picanvas_activate_tab st n)"



text \<open>A tab and a panel of fresh markup, without any attribute or class.\<close>

definition plain_tab :: tab_el where
  "plain_tab = \<lparr>tab_active = False, tab_aria_selected = None, tab_tabindex = None,
     tab_placeholder = None, tab_aria_disabled = None\<rparr>"

definition plain_panel :: panel_el where
  "plain_panel = \<lparr>panel_src_active = False, panel_active = False, panel_aria_hidden = None,
     panel_tabindex = None, panel_lazy = None, panel_lazy_loaded = None, panel_frames = []\<rparr>"

subsection \<open>Banner stabiliser: the mutation observer of a contained panel\<close>

text \<open>
  A layout container (\<^verbatim>\<open>data-automation-id="fullWidthImageLayout"\<close>) of a panel: the
  classes \<^verbatim>\<open>picanvas-height-locked\<close> and \<^verbatim>\<open>picanvas-contained-banner\<close>, the inline width,
  left margin and height, whether it holds an image, its rendered height, and the
  number of \<^verbatim>\<open>applyHeightLock\<close> calls that wait for the image or for an animation frame.
\<close>

record layout_el =
  height_locked :: bool
  contained_banner :: bool
  style_width :: string
  style_marginLeft :: string
  style_height :: string
  has_img :: bool
  offsetHeight :: nat
  pending_locks :: nat

datatype mutation_type = Attributes | ChildList

text \<open>A mutation record as the callback reads it: type, attribute name, the class and the
  inline style of the target, and the number of added nodes.\<close>

record mutation =
  mutation_type :: mutation_type
  attributeName :: string
  target_locked :: bool
  target_width :: string
  target_marginLeft :: string
  addedNodes :: nat

text \<open>The state of the observer of one panel: the attribute \<^verbatim>\<open>data-fullwidth-banner\<close>, the
  layout containers, the time at which the pending debounce timer fires (\<open>None\<close> for
  \<^verbatim>\<open>null\<close>), and the number of corrective passes the observer has started.\<close>

record banner_watch =
  fullwidth_banner :: "string option"
  layouts :: "layout_el list"
  debounceTimer :: "nat option"
  fix_passes :: nat


definition applyHeightLock :: "layout_el \<Rightarrow> layout_el" where
  "applyHeightLock el =
     (if 0 < offsetHeight el
      then el\<lparr>style_height := nat_toString (offsetHeight el) @ ''px'', height_locked := True\<rparr>
      else el)"




definition mutation_needs_fix :: "mutation \<Rightarrow> bool" where
  "mutation_needs_fix m =
     ((mutation_type m = Attributes \<and> attributeName m = ''style'' \<and> \<not> target_locked m \<and>
       ((target_width m \<noteq> [] \<and> target_width m \<noteq> ''100%'') \<or>
        (target_marginLeft m \<noteq> [] \<and> target_marginLeft m \<noteq> ''0px''))) \<or>
      (mutation_type m = ChildList \<and> 0 < addedNodes m))"

definition DEBOUNCE_MS :: nat where
  "DEBOUNCE_MS = 200"

text \<open>The callback of the \<^verbatim>\<open>MutationObserver\<close>, called at time \<open>now\<close> with a batch of
  mutations.\<close>

definition observer_callback :: "nat \<Rightarrow> banner_watch \<Rightarrow> mutation list \<Rightarrow> banner_watch" where
  "observer_callback now w mutations =
     (let allLocked = list_all height_locked (layouts w)
      in if allLocked \<and> 0 < length (layouts w) then w
         else let needsFix = list_ex mutation_needs_fix mutations
              in if needsFix then w\<lparr>debounceTimer := Some (now + DEBOUNCE_MS)\<rparr> else w)"





section \<open>Properties\<close>

subsection \<open>Substrings\<close>

lemma sublist_app_r: "sublist x b \<Longrightarrow> sublist x (a @ b)"
  by (metis sublist_append)

lemma sublist_trans: "sublist x y \<Longrightarrow> sublist y z \<Longrightarrow> sublist x z"
  unfolding sublist_def by (metis append.assoc)

subsection \<open>HTML escaping\<close>

lemma replace_char_Nil: "replace_char c r [] = []"
  by (simp add: replace_char_def)

lemma replace_char_Cons:
  "replace_char c r (x # s) = (if x = c then r else [x]) @ replace_char c r s"
  by (simp add: replace_char_def)

lemma replace_char_append:
  "replace_char c r (a @ b) = replace_char c r a @ replace_char c r b"
  by (simp add: replace_char_def)

lemma replacements_concat:
  \<open>replace_char CHR 0x27 ''&#39;''
     (replace_char CHR 0x22 ''&quot;''
       (replace_char CHR ''>'' ''&gt;''
         (replace_char CHR ''<'' ''&lt;''
           (replace_char CHR ''&'' ''&amp;'' s)))) = concat (map escape_char s)\<close>
  by (induction s)
    (simp_all add: replace_char_Cons replace_char_Nil replace_char_append escape_char_def)

lemma encodeHtml_concat: "encodeHtml s = concat (map escape_char s)"
  by (simp add: encodeHtml_def replacements_concat)

lemma entities_complete_escape:
  "entities_complete s \<Longrightarrow> entities_complete (escape_char c @ s)"
  by (simp add: escape_char_def html_entities_def)

lemma entities_complete_encodeHtml: "entities_complete (encodeHtml s)"
  unfolding encodeHtml_concat by (induction s) (simp_all add: entities_complete_escape)

subsection \<open>Diagram identifiers\<close>

lemmas id_eval = makeCssSafeId_def replace_unsafe_def is_id_char_def is_digit_def is_lower_def
  is_upper_def charCode_def strip_dashes_def css_identifier_def

lemma makeCssSafeId_example:
  "makeCssSafeId now ''id=5/weird char'' = ''id-5-weird-char'' \<and>
   css_identifier (makeCssSafeId now ''id=5/weird char'') \<and>
   makeCssSafeId now (makeCssSafeId now ''id=5/weird char'') = makeCssSafeId now ''id=5/weird char''"
  by (simp add: id_eval)

text \<open>What holds for every input: the identifier consists of letters, digits, dashes
  and underscores, and unless it is the fallback with the time stamp it is not empty, has
  no two dashes in a row and neither begins nor ends with a dash.\<close>

lemma id_chars_replace: "list_all is_id_char (replace_unsafe s)"
  by (auto simp: replace_unsafe_def list_all_iff is_id_char_def)

lemma list_all_collapse: "list_all P s \<Longrightarrow> list_all P (collapse_dashes s)"
  by (induction s rule: collapse_dashes.induct) auto

lemma strip_dashes_sublist: "sublist (strip_dashes s) s"
proof -
  let ?P = "\<lambda>c. c = CHR ''-''"
  let ?d = "dropWhile ?P s"
  have "suffix (dropWhile ?P (rev ?d)) (rev ?d)"
    by (rule suffix_dropWhile)
  then have "prefix (rev (dropWhile ?P (rev ?d))) (rev (rev ?d))"
    by (simp only: suffix_to_prefix)
  then have "prefix (strip_dashes s) ?d"
    by (simp add: strip_dashes_def)
  then have "sublist (strip_dashes s) ?d" by (rule prefix_imp_sublist)
  moreover have "suffix ?d s" by (rule suffix_dropWhile)
  then have "sublist ?d s" by (rule suffix_imp_sublist)
  ultimately show ?thesis by (rule sublist_trans)
qed

lemma list_all_strip: "list_all P s \<Longrightarrow> list_all P (strip_dashes s)"
  using strip_dashes_sublist[of s] by (auto simp: list_all_iff dest: set_mono_sublist)

lemma digit_char_id: "d < 10 \<Longrightarrow> is_id_char (digit_char d)"
proof -
  assume "d < 10"
  then have "d \<in> {0,1,2,3,4,5,6,7,8,9}" by auto
  then show ?thesis
    by (auto simp: digit_char_def is_id_char_def is_digit_def charCode_def)
qed

lemma nat_toString_id: "list_all is_id_char (nat_toString n)"
proof (induction n rule: nat_toString.induct)
  case (1 n)
  show ?case
  proof (cases "n < 10")
    case True
    then show ?thesis by (subst nat_toString.simps) (simp add: digit_char_id)
  next
    case False
    with 1 show ?thesis by (subst nat_toString.simps) (simp add: digit_char_id)
  qed
qed

lemma fallback_id: "list_all is_id_char (''mermaid-'' @ int_toString now)"
  by (simp add: int_toString_def nat_toString_id is_id_char_def is_lower_def charCode_def)

lemma makeCssSafeId_chars: "list_all is_id_char (makeCssSafeId now s)"
proof -
  have "list_all is_id_char (''m-'' @ replace_unsafe s)"
    using id_chars_replace[of s] by (simp add: is_id_char_def is_lower_def charCode_def)
  then have a: "list_all is_id_char (strip_dashes (collapse_dashes (''m-'' @ replace_unsafe s)))"
    by (intro list_all_strip list_all_collapse)
  have b: "list_all is_id_char (strip_dashes (collapse_dashes (replace_unsafe s)))"
    using id_chars_replace[of s] by (intro list_all_strip list_all_collapse)
  show ?thesis
    using a b fallback_id[of now]
    by (simp add: makeCssSafeId_def Let_def)
qed

lemma sublist_dd: "sublist ''--'' (a # b # s) \<longleftrightarrow> (a = CHR ''-'' \<and> b = CHR ''-'') \<or> sublist ''--'' (b # s)"
  by (auto simp: sublist_Cons_right)

lemma collapse_hd: "\<exists>t. collapse_dashes (b # s) = b # t"
proof (induction s arbitrary: b)
  case Nil
  show ?case by simp
next
  case (Cons c s)
  from Cons[of c] obtain t where "collapse_dashes (c # s) = c # t" by blast
  then show ?case by (cases "b = CHR ''-'' \<and> c = CHR ''-''") auto
qed

lemma no_double_collapse: "\<not> sublist ''--'' (collapse_dashes s)"
proof (induction s rule: collapse_dashes.induct)
  case (1 a b s)
  obtain t where t: "collapse_dashes (b # s) = b # t" using collapse_hd by blast
  show ?case
  proof (cases "a = CHR ''-'' \<and> b = CHR ''-''")
    case True
    with 1 show ?thesis by simp
  next
    case False
    then have "collapse_dashes (a # b # s) = a # b # t" using t by auto
    moreover have "\<not> sublist ''--'' (b # t)" using 1 False t by auto
    ultimately show ?thesis using False by (simp only: sublist_dd) simp
  qed
qed (simp_all add: sublist_Cons_right)

lemma no_double_strip: "\<not> sublist ''--'' s \<longrightarrow> \<not> sublist ''--'' (strip_dashes s)"
proof (intro impI notI)
  assume a: "\<not> sublist ''--'' s" and b: "sublist ''--'' (strip_dashes s)"
  from b strip_dashes_sublist have "sublist ''--'' s" by (rule sublist_trans)
  with a show False by simp
qed

lemma strip_ends: "strip_dashes s \<noteq> [] \<Longrightarrow> hd (strip_dashes s) \<noteq> CHR ''-'' \<and> last (strip_dashes s) \<noteq> CHR ''-''"
proof -
  let ?P = "\<lambda>c. c = CHR ''-''"
  let ?d = "dropWhile ?P s"
  let ?e = "dropWhile ?P (rev ?d)"
  assume ne: "strip_dashes s \<noteq> []"
  then have e: "?e \<noteq> []" by (simp add: strip_dashes_def)
  then have "\<not> ?P (hd ?e)" by (rule hd_dropWhile)
  then have l: "last (strip_dashes s) \<noteq> CHR ''-''"
    using e by (simp add: strip_dashes_def last_rev)
  have d: "?d \<noteq> []"
  proof
    assume "?d = []"
    then have "?e = []" by (simp only: rev.simps dropWhile.simps)
    with e show False by contradiction
  qed
  then have hd: "\<not> ?P (hd ?d)" by (rule hd_dropWhile)
  have "suffix (dropWhile ?P (rev ?d)) (rev ?d)"
    by (rule suffix_dropWhile)
  then have "prefix (rev (dropWhile ?P (rev ?d))) (rev (rev ?d))"
    by (simp only: suffix_to_prefix)
  then have "prefix (strip_dashes s) ?d"
    by (simp add: strip_dashes_def)
  then obtain z where z: "?d = strip_dashes s @ z"
    unfolding prefix_def by (rule exE)
  have "hd (strip_dashes s @ z) = hd (strip_dashes s)"
    using ne by (rule hd_append2)
  with z have "hd (strip_dashes s) = hd ?d"
    by (simp only:)
  with hd l show ?thesis by simp
qed


lemma makeCssSafeId_shape:
  "list_all is_id_char (makeCssSafeId now s) \<and>
   (makeCssSafeId now s = ''mermaid-'' @ int_toString now \<or>
    (makeCssSafeId now s \<noteq> [] \<and> \<not> sublist ''--'' (makeCssSafeId now s) \<and>
     hd (makeCssSafeId now s) \<noteq> CHR ''-'' \<and> last (makeCssSafeId now s) \<noteq> CHR ''-''))"
proof -
  have "r \<noteq> [] \<longrightarrow> \<not> sublist ''--'' r \<and> hd r \<noteq> CHR ''-'' \<and> last r \<noteq> CHR ''-''"
    if "r = strip_dashes (collapse_dashes t)" for r t
    using that no_double_collapse [of t] no_double_strip [of "collapse_dashes t"]
      strip_ends [of "collapse_dashes t"] by simp
  then show ?thesis
    using makeCssSafeId_chars [of now s]
    by (simp add: makeCssSafeId_def Let_def)
qed

text \<open>
  Claim C4. The identifier is meant to match \<^verbatim>\<open>^[A-Za-z_-][A-Za-z0-9_-]*$\<close> and the
  function to be idempotent. The test for a leading digit runs before the leading dashes
  are removed: for the input \<^verbatim>\<open>-5\<close> the result is \<^verbatim>\<open>5\<close>, which begins with a digit,
  and applying the function to that result gives \<^verbatim>\<open>m-5\<close>.
\<close>

theorem makeCssSafeId_digit_after_dash:
  "makeCssSafeId now ''-5'' = ''5'' \<and>
   \<not> css_identifier (makeCssSafeId now ''-5'') \<and>
   makeCssSafeId now (makeCssSafeId now ''-5'') = ''m-5''"
  by (simp add: id_eval)

subsection \<open>Height of the embed container\<close>

lemma fold_case_unit:
  assumes "fold_case c \<in> set ''pxemrvhw%''"
  shows "is_css_char c"
proof (cases "is_upper c")
  case True
  then show ?thesis by (simp add: is_css_char_def)
next
  case False
  then have "c \<in> set ''pxemrvhw%''"
    using assms by (simp add: fold_case_def)
  then show ?thesis
    by (auto simp: is_css_char_def is_lower_def charCode_def)
qed

lemma css_units_chars: "unit \<in> set css_units \<Longrightarrow> set unit \<subseteq> set ''pxemrvhw%''"
  by (auto simp: css_units_def)

lemma safePattern_chars:
  assumes "safePattern s"
  shows "list_all is_css_char s"
proof -
  let ?n = "takeWhile is_num_char s" and ?u = "dropWhile is_num_char s"
  have n: "list_all is_css_char ?n"
    by (auto simp: list_all_iff is_css_char_def is_num_char_def dest!: set_takeWhileD)
  have u: "list_all is_css_char ?u"
  proof (cases "?u = []")
    case True
    then show ?thesis by (simp only: list.pred_inject)
  next
    case False
    with assms have "map fold_case ?u \<in> set css_units"
      by (auto simp: safePattern_def Let_def)
    then have "set (map fold_case ?u) \<subseteq> set ''pxemrvhw%''"
      by (rule css_units_chars)
    then have "\<forall>c \<in> set ?u. fold_case c \<in> set ''pxemrvhw%''"
      by auto
    then show ?thesis
      by (auto simp: list_all_iff intro: fold_case_unit)
  qed
  have "s = ?n @ ?u" by simp
  then have "list_all is_css_char s = (list_all is_css_char ?n \<and> list_all is_css_char ?u)"
    by (metis list_all_append)
  with n u show ?thesis by simp
qed

text \<open>The test agrees with the pattern read as a regular expression: one or more
  digits and dots, then nothing or one of the units in either case.\<close>

lemma safePattern_matches:
  "safePattern s \<longleftrightarrow>
     (\<exists>num unit. s = num @ unit \<and> num \<noteq> [] \<and> list_all is_num_char num \<and>
        (unit = [] \<or> map fold_case unit \<in> set css_units))"
proof
  assume "safePattern s"
  then have "s = takeWhile is_num_char s @ dropWhile is_num_char s \<and>
      takeWhile is_num_char s \<noteq> [] \<and> list_all is_num_char (takeWhile is_num_char s) \<and>
      (dropWhile is_num_char s = [] \<or> map fold_case (dropWhile is_num_char s) \<in> set css_units)"
    by (auto simp: safePattern_def Let_def list_all_iff dest: set_takeWhileD)
  then show "\<exists>num unit. s = num @ unit \<and> num \<noteq> [] \<and> list_all is_num_char num \<and>
        (unit = [] \<or> map fold_case unit \<in> set css_units)"
    by blast
next
  assume "\<exists>num unit. s = num @ unit \<and> num \<noteq> [] \<and> list_all is_num_char num \<and>
        (unit = [] \<or> map fold_case unit \<in> set css_units)"
  then obtain num unit where s: "s = num @ unit" and ne: "num \<noteq> []"
    and n: "list_all is_num_char num"
    and un: "unit = [] \<or> map fold_case unit \<in> set css_units"
    by blast
  have h: "unit \<noteq> [] \<Longrightarrow> \<not> is_num_char (hd unit)"
  proof -
    assume u0: "unit \<noteq> []"
    with un have "map fold_case unit \<in> set css_units" by simp
    then have "fold_case (hd unit) \<in> set ''pervw%''"
      using u0 by (cases unit) (auto simp: css_units_def)
    then show ?thesis
      by (auto simp: fold_case_def is_num_char_def is_digit_def is_upper_def charCode_def
          split: if_splits)
  qed
  have t: "takeWhile is_num_char s = num" and d: "dropWhile is_num_char s = unit"
  proof -
    show "takeWhile is_num_char s = num"
    proof (cases unit)
      case Nil
      with s n show ?thesis by (simp add: list_all_iff)
    next
      case (Cons x xs)
      with h have "\<not> is_num_char x" by simp
      with s n Cons show ?thesis by (simp add: list_all_iff)
    qed
    show "dropWhile is_num_char s = unit"
    proof (cases unit)
      case Nil
      with s n show ?thesis by (simp add: list_all_iff)
    next
      case (Cons x xs)
      with h have "\<not> is_num_char x" by simp
      with s n Cons show ?thesis by (simp add: list_all_iff)
    qed
  qed
  show "safePattern s"
    using ne un by (simp add: safePattern_def Let_def t d)
qed

lemma safePattern_nonempty: "safePattern s \<Longrightarrow> s \<noteq> []"
  by (auto simp: safePattern_def Let_def)

text \<open>A string of digits passes the first pattern already: the branch that appends
  \<^verbatim>\<open>px\<close> is never taken.\<close>

lemma digits_only_safePattern: "digits_only s \<Longrightarrow> safePattern s"
  by (auto simp: digits_only_def safePattern_def Let_def is_num_char_def list_all_iff
      takeWhile_eq_Nil_iff dropWhile_eq_Nil_conv intro: hd_in_set)

lemma sanitizeCssValue_cases:
  "sanitizeCssValue v =
     (if v = [] then [] else if safePattern (trim v) then trim v else ''400px'')"
  using digits_only_safePattern by (auto simp: sanitizeCssValue_def Let_def)

lemma safePattern_default: "safePattern ''400px''"
  by (simp add: safePattern_def Let_def is_num_char_def is_digit_def charCode_def css_units_def
      fold_case_def is_upper_def)

lemmas trim_eval = trim_def trimStart_def trimEnd_def is_space_def

text \<open>
  Claim C10, as amended. The height written into the style of the embed container is
  empty exactly when the configured height is the empty string, and otherwise consists of
  one or more digits and dots followed by at most one of the units px, em, rem, \%, vh, vw
  in either case; an absent height gives \<^verbatim>\<open>400px\<close>, and so does every non-empty height
  that does not have that shape after trimming. The value holds digits, letters, dots and
  percent signs only.
\<close>

theorem embed_height_safe:
  "(embed_height cfg = [] \<or> safePattern (embed_height cfg)) \<and>
   (embed_height cfg = [] \<longleftrightarrow> height cfg = Some []) \<and>
   (height cfg = None \<longrightarrow> embed_height cfg = ''400px'') \<and>
   (\<forall>h. height cfg = Some h \<and> h \<noteq> [] \<and> \<not> safePattern (trim h) \<longrightarrow>
        embed_height cfg = ''400px'') \<and>
   list_all is_css_char (embed_height cfg)"
proof -
  have a: "sanitizeCssValue ''400px'' = ''400px''"
    using safePattern_default by (simp add: sanitizeCssValue_cases trim_eval)
  have b: "sanitizeCssValue v = [] \<or> safePattern (sanitizeCssValue v)" for v
    using safePattern_default by (simp add: sanitizeCssValue_cases)
  have c: "sanitizeCssValue v = [] \<longleftrightarrow> v = []" for v
    using safePattern_nonempty by (auto simp: sanitizeCssValue_cases)
  have d: "list_all is_css_char (sanitizeCssValue v)" for v
    using b[of v] safePattern_chars by auto
  show ?thesis
    using a b c d by (auto simp: embed_height_def sanitizeCssValue_cases split: option.splits)
qed

theorem embed_height_safe_witness:
  \<open>embed_height \<lparr>url = ''https://youtube.com/embed/x'',
       height = Some ''100%" onload="alert(1)'', additionalDomains = None,
       defer_flag = None\<rparr> = ''400px'' \<and>
   embed_height \<lparr>url = ''https://youtube.com/embed/x'', height = None,
       additionalDomains = None, defer_flag = None\<rparr> = ''400px''\<close>
proof -
  have \<open>\<not> safePattern (trim ''100%" onload="alert(1)'')\<close>
    by (simp add: trim_eval safePattern_def Let_def is_num_char_def is_digit_def charCode_def
        css_units_def fold_case_def is_upper_def)
  then show ?thesis
    using
      embed_height_safe [of \<open>\<lparr>url = ''https://youtube.com/embed/x'',
        height = Some ''100%" onload="alert(1)'', additionalDomains = None,
        defer_flag = None\<rparr>\<close>]
      embed_height_safe [of \<open>\<lparr>url = ''https://youtube.com/embed/x'', height = None,
        additionalDomains = None, defer_flag = None\<rparr>\<close>]
    by simp
qed

text \<open>The claim as stated fails for the empty height: the value written is empty, which
  neither has the shape of a number with a unit nor is the default.\<close>

theorem embed_height_empty_counterexample:
  "embed_height \<lparr>url = ''https://youtube.com/embed/x'', height = Some [],
       additionalDomains = None, defer_flag = None\<rparr> = [] \<and>
   \<not> safePattern (embed_height \<lparr>url = ''https://youtube.com/embed/x'', height = Some [],
       additionalDomains = None, defer_flag = None\<rparr>) \<and>
   embed_height \<lparr>url = ''https://youtube.com/embed/x'', height = Some [],
       additionalDomains = None, defer_flag = None\<rparr> \<noteq> ''400px''"
  by (simp add: embed_height_def sanitizeCssValue_def safePattern_def)

text \<open>A bare integer is written as it is, without a unit.\<close>

lemma embed_height_bare_integer:
  "embed_height \<lparr>url = ''https://youtube.com/embed/x'', height = Some ''100'',
       additionalDomains = None, defer_flag = None\<rparr> = ''100''"
  by (simp add: embed_height_def sanitizeCssValue_cases safePattern_def is_num_char_def
      is_digit_def charCode_def trim_eval)

subsection \<open>Feed descriptions\<close>

lemma rss_list_item_markup_parts:
  "sublist th (rss_list_item_markup th hr tg ti me de)"
  "sublist hr (rss_list_item_markup th hr tg ti me de)"
  "sublist ti (rss_list_item_markup th hr tg ti me de)"
  "sublist me (rss_list_item_markup th hr tg ti me de)"
  "sublist de (rss_list_item_markup th hr tg ti me de)"
  unfolding rss_list_item_markup_def
  by (intro sublist_append_rightI sublist_app_r)+

lemma item_shows_title:
  "sublist (encodeHtml (title item)) (renderRssListItem now tz cfg item)"
  unfolding renderRssListItem_def Let_def by (rule rss_list_item_markup_parts)

lemma item_shows_link:
  "sublist (encodeHtml (link item)) (renderRssListItem now tz cfg item)"
  unfolding renderRssListItem_def Let_def by (rule rss_list_item_markup_parts)

lemma item_shows_description:
  assumes "showDescription cfg" "description item \<noteq> []"
  shows "sublist (encodeHtml (truncateRssText (description item) (descriptionLimit cfg)))
           (renderRssListItem now tz cfg item)"
proof -
  let ?d = \<open>''<div class="picanvas-rss-description">'' @
             encodeHtml (truncateRssText (description item) (descriptionLimit cfg)) @
             ''</div>''\<close>
  have "sublist (encodeHtml (truncateRssText (description item) (descriptionLimit cfg))) ?d"
    by (rule sublist_appendI)
  moreover have "sublist ?d (renderRssListItem now tz cfg item)"
    unfolding renderRssListItem_def Let_def using assms
    by (simp only: if_True simp_thms rss_list_item_markup_parts)
  ultimately show ?thesis by (rule sublist_trans)
qed

lemma item_shows_author:
  assumes "showAuthor cfg" "author item \<noteq> []"
  shows "sublist (encodeHtml (author item)) (renderRssListItem now tz cfg item)"
proof -
  let ?a = \<open>''<span class="picanvas-rss-author">'' @ encodeHtml (author item) @ ''</span>''\<close>
  have a: "sublist (encodeHtml (author item)) ?a"
    by (rule sublist_appendI)
  have ne: "?a \<noteq> []" by simp
  have \<open>sublist ?a (''<div class="picanvas-rss-meta">'' @ d @ b @ ?a @ ''</div>'')\<close> for d b
    by (intro sublist_append_rightI sublist_app_r)
  with a have
    \<open>sublist (encodeHtml (author item))
       (''<div class="picanvas-rss-meta">'' @ d @ b @ ?a @ ''</div>'')\<close> for d b
    by (rule sublist_trans)
  moreover have
    \<open>sublist (''<div class="picanvas-rss-meta">'' @ d @ b @ ?a @ ''</div>'')
       (rss_list_item_markup th hr tg ti
          (''<div class="picanvas-rss-meta">'' @ d @ b @ ?a @ ''</div>'') de)\<close>
    for th hr tg ti d b de
    by (rule rss_list_item_markup_parts)
  ultimately have
    \<open>sublist (encodeHtml (author item))
       (rss_list_item_markup th hr tg ti
          (''<div class="picanvas-rss-meta">'' @ d @ b @ ?a @ ''</div>'') de)\<close>
    for th hr tg ti d b de
    by (rule sublist_trans)
  then show ?thesis
    unfolding renderRssListItem_def Let_def using assms ne
    by (simp only: if_True simp_thms)
qed

lemmas truncate_eval = truncateRssText_def substring0_def trim_eval

text \<open>
  Claim C9, as amended. A description no longer than the limit is returned unchanged; a
  longer (non-empty) one is cut at the limit (at 0 for a negative limit), white space is
  trimmed at both ends of the cut, and \<^verbatim>\<open>...\<close> is appended, so that limit 10 on
  \<^verbatim>\<open>Hello world, this is long\<close> gives \<^verbatim>\<open>Hello worl...\<close>. In an item of the list layout
  the title and the link appear escaped in full whatever the limit, as does the author
  when shown; the description appears truncated and then escaped. Escaping comes after
  the cut, so every ampersand of the escaped description begins a complete entity.
\<close>

theorem truncateRssText_contract:
  "(int (length text) \<le> limit \<longrightarrow> truncateRssText text limit = text) \<and>
   (text \<noteq> [] \<and> limit < int (length text) \<longrightarrow>
      truncateRssText text limit = trim (take (nat limit) text) @ ''...'') \<and>
   truncateRssText ''Hello world, this is long'' 10 = ''Hello worl...'' \<and>
   sublist (encodeHtml (title item)) (renderRssListItem now tz cfg item) \<and>
   sublist (encodeHtml (link item)) (renderRssListItem now tz cfg item) \<and>
   (showAuthor cfg \<and> author item \<noteq> [] \<longrightarrow>
      sublist (encodeHtml (author item)) (renderRssListItem now tz cfg item)) \<and>
   (showDescription cfg \<and> description item \<noteq> [] \<longrightarrow>
      sublist (encodeHtml (truncateRssText (description item) (descriptionLimit cfg)))
        (renderRssListItem now tz cfg item)) \<and>
   entities_complete (encodeHtml (truncateRssText text limit))"
proof -
  have "int (length text) \<le> limit \<longrightarrow> truncateRssText text limit = text"
    by (simp add: truncateRssText_def)
  moreover have "text \<noteq> [] \<and> limit < int (length text) \<longrightarrow>
      truncateRssText text limit = trim (take (nat limit) text) @ ''...''"
    by (simp add: truncateRssText_def substring0_def)
  moreover have "truncateRssText ''Hello world, this is long'' 10 = ''Hello worl...''"
    by (simp add: truncate_eval)
  ultimately show ?thesis
    using item_shows_title item_shows_link item_shows_author item_shows_description
      entities_complete_encodeHtml
    by blast
qed

theorem truncateRssText_contract_witness:
  \<open>truncateRssText ''Tom & Jerry are back'' 5 = ''Tom &...'' \<and>
   truncateRssText ''short'' 10 = ''short'' \<and>
   entities_complete (encodeHtml (truncateRssText ''Tom & Jerry are back'' 5)) \<and>
   sublist (encodeHtml ''Ann'')
     (renderRssListItem 0 (\<lambda>_. \<lparr>getDate = 5, getMonth = 0, getFullYear = 2024\<rparr>)
        \<lparr>layout = ''list'', showDate = False, showDescription = True, showImage = False,
         showAuthor = True, descriptionLimit = 5, dateFormat = ''relative'',
         linkTarget = ''_blank''\<rparr>
        \<lparr>title = ''News'', link = ''https://example.com/a'',
         description = ''Tom & Jerry are back'', publishedDate = NotADate, author = ''Ann'',
         thumbnail = None\<rparr>) \<and>
   sublist (encodeHtml ''Tom &...'')
     (renderRssListItem 0 (\<lambda>_. \<lparr>getDate = 5, getMonth = 0, getFullYear = 2024\<rparr>)
        \<lparr>layout = ''list'', showDate = False, showDescription = True, showImage = False,
         showAuthor = True, descriptionLimit = 5, dateFormat = ''relative'',
         linkTarget = ''_blank''\<rparr>
        \<lparr>title = ''News'', link = ''https://example.com/a'',
         description = ''Tom & Jerry are back'', publishedDate = NotADate, author = ''Ann'',
         thumbnail = None\<rparr>)\<close>
proof -
  have t: \<open>truncateRssText ''Tom & Jerry are back'' 5 = ''Tom &...''\<close>
    by (simp add: truncate_eval)
  show ?thesis
    using
      truncateRssText_contract [of \<open>''Tom & Jerry are back''\<close> 5
        \<open>\<lparr>title = ''News'', link = ''https://example.com/a'',
          description = ''Tom & Jerry are back'', publishedDate = NotADate, author = ''Ann'',
          thumbnail = None\<rparr>\<close>
        0 \<open>\<lambda>_. \<lparr>getDate = 5, getMonth = 0, getFullYear = 2024\<rparr>\<close>
        \<open>\<lparr>layout = ''list'', showDate = False, showDescription = True, showImage = False,
          showAuthor = True, descriptionLimit = 5, dateFormat = ''relative'',
          linkTarget = ''_blank''\<rparr>\<close>]
      truncateRssText_contract [of \<open>''short''\<close> 10]
    by (simp add: t)
qed

text \<open>The claim as stated, with only the trailing white space trimmed, fails on a
  description that begins with white space: the code trims the cut at both ends.\<close>

theorem truncateRssText_leading_space_counterexample:
  "truncateRssText ''  abcdef'' 4 = ''ab...'' \<and>
   trimEnd (substring0 ''  abcdef'' 4) @ ''...'' = ''  ab...'' \<and>
   truncateRssText ''  abcdef'' 4 \<noteq> trimEnd (substring0 ''  abcdef'' 4) @ ''...''"
  by (simp add: truncate_eval)

subsection \<open>Embedded frames\<close>










subsection \<open>Render functions and exceptions\<close>

text \<open>
  Claim C7. \<^verbatim>\<open>renderMarkdown\<close> and \<^verbatim>\<open>renderHtml\<close> return a result for every payload and
  whatever the parser and the sanitizer do: the empty string and every value that is no
  string give the empty markup, an exception thrown by the parser or by the sanitizer is
  caught and gives the error paragraph, and otherwise the result is the sanitized markup.
\<close>

theorem render_never_throws:
  \<open>(\<exists>r. renderMarkdown marked_parse purify c = Inr r) \<and>
   (\<exists>r. renderHtml purify c = Inr r) \<and>
   (c = JString [] \<or> (\<forall>s. c \<noteq> JString s) \<longrightarrow>
      renderMarkdown marked_parse purify c = Inr (result_html []) \<and>
      renderHtml purify c = Inr (result_html [])) \<and>
   (\<forall>s e. c = JString s \<and> s \<noteq> [] \<and>
      (marked_parse s = Inl e \<or>
       (\<exists>raw. marked_parse s = Inr raw \<and> purify markdown_purify_config raw = Inl e)) \<longrightarrow>
      renderMarkdown marked_parse purify c =
        Inr (result_html
          ''<p class="picanvas-render-error">Error rendering Markdown content</p>'')) \<and>
   (\<forall>s e. c = JString s \<and> s \<noteq> [] \<and> purify html_purify_config s = Inl e \<longrightarrow>
      renderHtml purify c =
        Inr (result_html ''<p class="picanvas-render-error">Error rendering HTML content</p>'')) \<and>
   (\<forall>s raw clean. c = JString s \<and> s \<noteq> [] \<and> marked_parse s = Inr raw \<and>
      purify markdown_purify_config raw = Inr clean \<longrightarrow>
      renderMarkdown marked_parse purify c = Inr (result_html clean)) \<and>
   (\<forall>s clean. c = JString s \<and> s \<noteq> [] \<and> purify html_purify_config s = Inr clean \<longrightarrow>
      renderHtml purify c = Inr (result_html clean))\<close>
  by (cases c) (auto simp: renderMarkdown_def renderHtml_def split: sum.splits)

theorem render_never_throws_witness:
  \<open>renderMarkdown (\<lambda>s. Inl (Thrown ''parse failed'')) (\<lambda>cfg s. Inr s) (JString ''# Title'') =
     Inr (result_html ''<p class="picanvas-render-error">Error rendering Markdown content</p>'') \<and>
   renderHtml (\<lambda>cfg s. Inl (Thrown ''sanitize failed'')) (JString ''<b>x</b>'') =
     Inr (result_html ''<p class="picanvas-render-error">Error rendering HTML content</p>'') \<and>
   renderMarkdown (\<lambda>s. Inr s) (\<lambda>cfg s. Inr s) (JString ''# Title'') =
     Inr (result_html ''# Title'') \<and>
   renderMarkdown (\<lambda>s. Inl (Thrown ''parse failed'')) (\<lambda>cfg s. Inr s) JNull =
     Inr (result_html []) \<and>
   renderHtml (\<lambda>cfg s. Inl (Thrown ''sanitize failed'')) (JNumber 5) = Inr (result_html [])\<close>
  using
    render_never_throws [of \<open>\<lambda>s. Inl (Thrown ''parse failed'')\<close> \<open>\<lambda>cfg s. Inr s\<close>
      \<open>JString ''# Title''\<close>]
    render_never_throws [of \<open>\<lambda>s. Inr s\<close> \<open>\<lambda>cfg s. Inl (Thrown ''sanitize failed'')\<close>
      \<open>JString ''<b>x</b>''\<close>]
    render_never_throws [of \<open>\<lambda>s. Inr s\<close> \<open>\<lambda>cfg s. Inr s\<close> \<open>JString ''# Title''\<close>]
    render_never_throws [of \<open>\<lambda>s. Inl (Thrown ''parse failed'')\<close> \<open>\<lambda>cfg s. Inr s\<close> JNull]
    render_never_throws [of \<open>\<lambda>s. Inr s\<close> \<open>\<lambda>cfg s. Inl (Thrown ''sanitize failed'')\<close>
      \<open>JNumber 5\<close>]
  by simp

subsection \<open>Tab activation\<close>






text \<open>A placeholder tab is not activated: the call returns \<^verbatim>\<open>false\<close> and nothing
  changes.\<close>

lemma activateTab_placeholder:
  "attr_true tab_placeholder (tabs st) i \<Longrightarrow> activateTab st i f = (False, st)"
  by (simp add: activateTab_def)


text \<open>A click on the active tab does nothing.\<close>

lemma tab_click_active: "tab_click st (u st) = st"
  by (simp add: tab_click_def)

text \<open>Every completed activation triggers a tab-change event, whatever the index.\<close>

lemma activateTab_triggers_tab_change:
  "activateTab st i f = (True, st') \<Longrightarrow> \<exists>evs. events st' = events st @ evs @ [TabChange i]"
  by (auto simp: activateTab_def Let_def split: if_splits)

lemmas tab_eval = addTabs_def activateTab_def tab_click_def tab_keydown_def
  picanvas_activate_tab_def plain_tab_def plain_panel_def at_eq_def attr_true_def Let_def

text \<open>
  Claim C3. Activation of the index that is already active is meant to change nothing and
  to trigger no event on every path. The click handler has the guard; the Enter and Space
  keys and the function for deep links call \<^verbatim>\<open>activateTab\<close> without it: in a widget of
  two plain tabs with tab 0 active, each of them triggers a tab-change event for index 0
  and schedules a corrective pass, while the click does neither.
\<close>

theorem reactivation_triggers_tab_change:
  "u (addTabs [plain_tab, plain_tab] [plain_panel, plain_panel]) = 0 \<and>
   events (addTabs [plain_tab, plain_tab] [plain_panel, plain_panel]) = [] \<and>
   events (tab_keydown (addTabs [plain_tab, plain_tab] [plain_panel, plain_panel]) Enter 0)
     = [TabChange 0] \<and>
   events (tab_keydown (addTabs [plain_tab, plain_tab] [plain_panel, plain_panel]) Space 0)
     = [TabChange 0] \<and>
   events (picanvas_activate_tab (addTabs [plain_tab, plain_tab] [plain_panel, plain_panel]) 0)
     = [TabChange 0] \<and>
   scheduled_fixes
     (tab_keydown (addTabs [plain_tab, plain_tab] [plain_panel, plain_panel]) Enter 0) = [0] \<and>
   tab_click (addTabs [plain_tab, plain_tab] [plain_panel, plain_panel]) 0 =
     addTabs [plain_tab, plain_tab] [plain_panel, plain_panel]"
  by (simp add: tab_eval)













subsection \<open>Height-locked banners\<close>




text \<open>While a container is not locked, a mutation that adds nodes starts the debounce
  timer, and the timer starts a corrective pass.\<close>

lemma unlocked_mutation_schedules_pass:
  "debounceTimer
     (observer_callback 1000
        \<lparr>fullwidth_banner = Some ''false'',
         layouts = [\<lparr>height_locked = False, contained_banner = True, style_width = ''100%'',
                     style_marginLeft = ''0px'', style_height = [], has_img = True,
                     offsetHeight = 320, pending_locks = 0\<rparr>],
         debounceTimer = None, fix_passes = 0\<rparr>
        [\<lparr>mutation_type = ChildList, attributeName = [], target_locked = False,
          target_width = [], target_marginLeft = [], addedNodes = 1\<rparr>]) = Some 1200"
  by (simp add: observer_callback_def mutation_needs_fix_def DEBOUNCE_MS_def)



subsection \<open>Relative feed dates\<close>

lemma relativeRssDate_by_age:
  "relativeRssDate now t =
     (let age = now - t in
      if age < 60000 then Some ''Just now''
      else if age < 60 * 60000 then Some (int_toString (age div 60000) @ ''m ago'')
      else if age < 24 * 3600000 then Some (int_toString (age div 3600000) @ ''h ago'')
      else if age div 86400000 = 1 then Some ''Yesterday''
      else if age < 7 * 86400000 then Some (int_toString (age div 86400000) @ ''d ago'')
      else if age < 30 * 86400000 then Some (int_toString (age div 86400000 div 7) @ ''w ago'')
      else None)"
proof -
  define a where "a = now - t"
  have m: "a div 60000 < 1 \<longleftrightarrow> a < 60000" "a div 60000 < 60 \<longleftrightarrow> a < 60 * 60000"
    by auto
  have h: "a div 60000 div 60 = a div 3600000"
    by (simp add: zdiv_zmult2_eq[symmetric])
  have d: "a div 3600000 div 24 = a div 86400000"
    by (simp add: zdiv_zmult2_eq[symmetric])
  have h2: "a div 3600000 < 24 \<longleftrightarrow> a < 24 * 3600000"
    by auto
  have d2: "a div 86400000 < 7 \<longleftrightarrow> a < 7 * 86400000"
    "a div 86400000 < 30 \<longleftrightarrow> a < 30 * 86400000"
    by auto
  have "relativeRssDate now t =
     (if a div 60000 < 1 then Some ''Just now''
      else if a div 60000 < 60 then Some (int_toString (a div 60000) @ ''m ago'')
      else if a div 60000 div 60 < 24 then Some (int_toString (a div 60000 div 60) @ ''h ago'')
      else if a div 60000 div 60 div 24 = 1 then Some ''Yesterday''
      else if a div 60000 div 60 div 24 < 7
        then Some (int_toString (a div 60000 div 60 div 24) @ ''d ago'')
      else if a div 60000 div 60 div 24 < 30
        then Some (int_toString (a div 60000 div 60 div 24 div 7) @ ''w ago'')
      else None)"
    unfolding relativeRssDate_def Let_def a_def by (rule refl)
  also have "\<dots> =
     (if a < 60000 then Some ''Just now''
      else if a < 60 * 60000 then Some (int_toString (a div 60000) @ ''m ago'')
      else if a < 24 * 3600000 then Some (int_toString (a div 3600000) @ ''h ago'')
      else if a div 86400000 = 1 then Some ''Yesterday''
      else if a < 7 * 86400000 then Some (int_toString (a div 86400000) @ ''d ago'')
      else if a < 30 * 86400000 then Some (int_toString (a div 86400000 div 7) @ ''w ago'')
      else None)"
    unfolding h d m h2 d2 by (rule refl)
  finally show ?thesis unfolding Let_def a_def .
qed

text \<open>
  Claim C5. In relative mode a valid date is shown by its age \<open>now - t\<close> in milliseconds:
  ``Just now'' under one minute, the floored minutes under one hour, the floored hours
  under one day, ``Yesterday'' exactly when the floored day count is 1, the floored days
  under 7 days, the floored weeks under 30 days, and from 30 days on the absolute
  formatting that the function applies when no relative label was returned.
\<close>

theorem formatRssDate_relative_boundaries:
  "formatRssDate now tz (ValidDate t) ''relative'' =
     (let age = now - t in
      if age < 60000 then ''Just now''
      else if age < 60 * 60000 then int_toString (age div 60000) @ ''m ago''
      else if age < 24 * 3600000 then int_toString (age div 3600000) @ ''h ago''
      else if age div 86400000 = 1 then ''Yesterday''
      else if age < 7 * 86400000 then int_toString (age div 86400000) @ ''d ago''
      else if age < 30 * 86400000 then int_toString (age div 86400000 div 7) @ ''w ago''
      else formatRssDate now tz (ValidDate t) ''MM/DD/YYYY'')"
  by (simp add: formatRssDate_def relativeRssDate_by_age Let_def absoluteRssDate_def)

text \<open>The boundary cases of the specification: 30 seconds, 90 minutes, 24 hours less one
  minute, exactly 48 hours, and 30 days.\<close>

theorem formatRssDate_relative_boundaries_witness:
  "formatRssDate 1700000000000 (\<lambda>_. \<lparr>getDate = 5, getMonth = 0, getFullYear = 2024\<rparr>)
     (ValidDate (1700000000000 - 30000)) ''relative'' = ''Just now'' \<and>
   formatRssDate 1700000000000 (\<lambda>_. \<lparr>getDate = 5, getMonth = 0, getFullYear = 2024\<rparr>)
     (ValidDate (1700000000000 - 5400000)) ''relative'' = ''1h ago'' \<and>
   formatRssDate 1700000000000 (\<lambda>_. \<lparr>getDate = 5, getMonth = 0, getFullYear = 2024\<rparr>)
     (ValidDate (1700000000000 - 86340000)) ''relative'' = ''23h ago'' \<and>
   formatRssDate 1700000000000 (\<lambda>_. \<lparr>getDate = 5, getMonth = 0, getFullYear = 2024\<rparr>)
     (ValidDate (1700000000000 - 172800000)) ''relative'' = ''2d ago'' \<and>
   formatRssDate 1700000000000 (\<lambda>_. \<lparr>getDate = 5, getMonth = 0, getFullYear = 2024\<rparr>)
     (ValidDate (1700000000000 - 2592000000)) ''relative'' = ''01/05/2024''"
proof -
  let ?tz = "\<lambda>_::int. \<lparr>getDate = 5, getMonth = 0, getFullYear = 2024\<rparr>"
  note ev = int_toString_def nat_toString.simps digit_char_def
  have a: "formatRssDate 1700000000000 ?tz (ValidDate (1700000000000 - 30000)) ''relative''
      = ''Just now''"
    using formatRssDate_relative_boundaries [of 1700000000000 ?tz "1700000000000 - 30000"]
    by (simp add: ev)
  have b: "formatRssDate 1700000000000 ?tz (ValidDate (1700000000000 - 5400000)) ''relative''
      = ''1h ago''"
    using formatRssDate_relative_boundaries [of 1700000000000 ?tz "1700000000000 - 5400000"]
    by (simp add: ev)
  have c: "formatRssDate 1700000000000 ?tz (ValidDate (1700000000000 - 86340000)) ''relative''
      = ''23h ago''"
    using formatRssDate_relative_boundaries [of 1700000000000 ?tz "1700000000000 - 86340000"]
    by (simp add: ev)
  have d: "formatRssDate 1700000000000 ?tz (ValidDate (1700000000000 - 172800000)) ''relative''
      = ''2d ago''"
    using formatRssDate_relative_boundaries [of 1700000000000 ?tz "1700000000000 - 172800000"]
    by (simp add: ev)
  have "formatRssDate 1700000000000 ?tz (ValidDate (1700000000000 - 2592000000)) ''MM/DD/YYYY''
      = ''01/05/2024''"
    by (simp add: formatRssDate_def absoluteRssDate_def padStart_def ev)
  then have e: "formatRssDate 1700000000000 ?tz (ValidDate (1700000000000 - 2592000000))
      ''relative'' = ''01/05/2024''"
    using formatRssDate_relative_boundaries [of 1700000000000 ?tz "1700000000000 - 2592000000"]
    by simp
  from a b c d e show ?thesis by blast
qed

end
